theory Spec2Isabelle
  imports Complex_Main
begin

section \<open>JavaScript numbers\<close>

text \<open>
  The \<^verbatim>\<open>bench\<close> command of \<^verbatim>\<open>src/index.js\<close> computes with JavaScript Numbers. The
  model of the run keeps the special values that decide a branch of the code (\<^verbatim>\<open>NaN\<close> and
  the infinities, which \<^verbatim>\<open>Number(...)\<close> and a division by zero can produce) and computes
  the finite values as exact rationals; \<^verbatim>\<open>-0\<close> is identified with \<^verbatim>\<open>0\<close>. No branch of
  the run reads a latency, so the rounding of IEEE-754 doubles changes the values of the
  statistics only, not the course of a run. The statistics as the code computes them, in
  doubles, are modelled separately below (\<open>record_outcome_dbl\<close>).
\<close>

datatype jsnum = NaN | NegInf | Fin rat | PosInf

text \<open>Truthiness of a Number, as tested by \<^verbatim>\<open>!x\<close>, \<^verbatim>\<open>x ? a : b\<close> and \<^verbatim>\<open>x && y\<close>.\<close>

fun truthy :: "jsnum \<Rightarrow> bool" where
  "truthy NaN = False"
| "truthy NegInf = True"
| "truthy (Fin x) = (x \<noteq> 0)"
| "truthy PosInf = True"

text \<open>A value that may be \<^verbatim>\<open>null\<close> (\<open>None\<close>); \<^verbatim>\<open>null\<close> is falsy.\<close>

fun truthy_opt :: "jsnum option \<Rightarrow> bool" where
  "truthy_opt None = False"
| "truthy_opt (Some x) = truthy x"

text \<open>\<^verbatim>\<open>x * k\<close> for a finite constant \<open>k\<close> (the code multiplies by 1000 and by 100).\<close>

fun js_scale :: "jsnum \<Rightarrow> rat \<Rightarrow> jsnum" where
  "js_scale NaN k = NaN"
| "js_scale (Fin a) k = Fin (a * k)"
| "js_scale PosInf k = (if k = 0 then NaN else if 0 < k then PosInf else NegInf)"
| "js_scale NegInf k = (if k = 0 then NaN else if 0 < k then NegInf else PosInf)"

text \<open>\<^verbatim>\<open>a / b\<close> for finite operands: a division by zero raises nothing, it yields
  \<^verbatim>\<open>NaN\<close> (for \<^verbatim>\<open>0 / 0\<close>) or an infinity.\<close>

definition js_div :: "rat \<Rightarrow> rat \<Rightarrow> jsnum" where
  "js_div a b =
     (if b = 0 then (if a = 0 then NaN else if 0 < a then PosInf else NegInf)
      else Fin (a / b))"

text \<open>\<^verbatim>\<open>n >= x\<close> for a finite non-negative integer \<open>n\<close>: false against \<^verbatim>\<open>NaN\<close>.\<close>

fun js_ge_nat :: "nat \<Rightarrow> jsnum \<Rightarrow> bool" where
  "js_ge_nat n NaN = False"
| "js_ge_nat n NegInf = True"
| "js_ge_nat n (Fin x) = (x \<le> of_nat n)"
| "js_ge_nat n PosInf = False"

text \<open>
  A reading of \<^verbatim>\<open>process.hrtime(start)\<close> is a pair \<^verbatim>\<open>[seconds, nanoseconds]\<close>; the
  code turns it into milliseconds with \<^verbatim>\<open>(diff[0] + diff[1] / 1e9) * 1000\<close>.
\<close>

type_synonym hrtime = "nat \<times> nat"

fun hr_ms :: "hrtime \<Rightarrow> rat" where
  "hr_ms (secs, nanos) = (of_nat secs + of_nat nanos / 1000000000) * 1000"


section \<open>The options of the \<^verbatim>\<open>bench\<close> command\<close>

text \<open>
  \<open>opt_num\<close> and \<open>opt_time\<close> are \<^verbatim>\<open>args.options.num\<close> and \<^verbatim>\<open>args.options.time\<close> after
  \<^verbatim>\<open>Number(...)\<close>, and \<open>None\<close> when the option is absent (\<^verbatim>\<open>!= null\<close> fails).
\<close>

record bench_options =
  opt_num :: "jsnum option"
  opt_time :: "jsnum option"

text \<open>\<^verbatim>\<open>const iterate = args.options.num != null ? Number(args.options.num) : null\<close>\<close>

definition iterate :: "bench_options \<Rightarrow> jsnum option" where
  "iterate opts = opt_num opts"

text \<open>\<^verbatim>\<open>let time = ...; if (!iterate && !time) time = 5;\<close>\<close>

definition time_limit :: "bench_options \<Rightarrow> jsnum option" where
  "time_limit opts =
     (if \<not> truthy_opt (iterate opts) \<and> \<not> truthy_opt (opt_time opts) then Some (Fin 5)
      else opt_time opts)"

text \<open>The delay handed to \<^verbatim>\<open>setTimeout\<close>: \<^verbatim>\<open>(time ? time : 60) * 1000\<close>.\<close>

definition timer_delay :: "bench_options \<Rightarrow> jsnum" where
  "timer_delay opts =
     js_scale (case time_limit opts of
                 None \<Rightarrow> Fin 60
               | Some t \<Rightarrow> if truthy t then t else Fin 60) 1000"


section \<open>The state of a run\<close>

text \<open>
  The local variables of the action (\<open>count\<close> to \<open>timeout\<close>), the delay the one-shot timer
  was armed with, what the run is waiting for, and the result printed by
  \<^verbatim>\<open>printResult\<close> (the numbers handed to the formatting functions \<^verbatim>\<open>formatNumber\<close> and
  \<^verbatim>\<open>humanize\<close>, which are not modelled).

  The phases: \<open>Setup\<close> before the first request, \<open>Calling\<close> while a \<^verbatim>\<open>broker.call\<close> is in
  flight, \<open>Yielded\<close> while the \<^verbatim>\<open>setImmediate\<close> callback of a slow cycle is queued, and
  \<open>Finished\<close> once \<^verbatim>\<open>done()\<close> was called.
\<close>

datatype phase = Setup | Calling | Yielded | Finished

record report =
  rep_requests :: nat
  rep_duration :: rat
  rep_errors :: nat
  rep_error_pct :: "jsnum option"
  rep_rps :: jsnum
  rep_avg :: jsnum
  rep_min :: "rat option"
  rep_max :: "rat option"

record bench_state =
  count :: nat
  resCount :: nat
  errorCount :: nat
  sumTime :: rat
  minTime :: "rat option"
  maxTime :: "rat option"
  timeout :: bool
  timer_ms :: jsnum
  phase :: phase
  printed :: "report option"

text \<open>
  \<^verbatim>\<open>printResult(duration)\<close>: the error text shows a percentage only when
  \<^verbatim>\<open>errorCount > 0\<close>; the rate and the average are unguarded divisions.
\<close>

definition printResult :: "bench_state \<Rightarrow> rat \<Rightarrow> report" where
  "printResult s duration =
     \<lparr> rep_requests = resCount s,
       rep_duration = duration,
       rep_errors = errorCount s,
       rep_error_pct =
         (if 0 < errorCount s
          then Some (js_scale (js_div (of_nat (errorCount s)) (of_nat (resCount s))) 100)
          else None),
       rep_rps = js_scale (js_div (of_nat (resCount s)) duration) 1000,
       rep_avg = js_div (sumTime s) (of_nat (resCount s)),
       rep_min = minTime s,
       rep_max = maxTime s \<rparr>"

text \<open>\<^verbatim>\<open>doRequest\<close>: count the request and issue \<^verbatim>\<open>broker.call\<close>.\<close>

definition doRequest :: "bench_state \<Rightarrow> bench_state" where
  "doRequest s = s\<lparr>count := count s + 1, phase := Calling\<rparr>"

text \<open>
  The test \<^verbatim>\<open>count % 10 * 1000\<close> of \<^verbatim>\<open>handleResponse\<close>: \<^verbatim>\<open>%\<close> and \<^verbatim>\<open>*\<close> have the same
  precedence and associate to the left, so the expression is \<^verbatim>\<open>(count % 10) * 1000\<close>. It
  is truthy when it is not zero; then the next request is issued at once (fast cycle),
  otherwise through \<^verbatim>\<open>setImmediate\<close> (slow cycle).
\<close>

definition cycle_expr :: "nat \<Rightarrow> nat" where
  "cycle_expr c = c mod 10 * 1000"

definition fast_cycle :: "nat \<Rightarrow> bool" where
  "fast_cycle c = (cycle_expr c \<noteq> 0)"

text \<open>The statistics part of \<^verbatim>\<open>handleResponse(startTime, err)\<close>; \<open>err\<close> is the truthiness
  of the second argument and \<open>diff\<close> is \<^verbatim>\<open>process.hrtime(startTime)\<close>.\<close>

definition record_outcome :: "bench_state \<Rightarrow> hrtime \<Rightarrow> bool \<Rightarrow> bench_state" where
  "record_outcome s diff err =
     (let s1 = s\<lparr>resCount := resCount s + 1\<rparr>;
          s2 = (if err then s1\<lparr>errorCount := errorCount s1 + 1\<rparr> else s1);
          duration = hr_ms diff;
          s3 = s2\<lparr>sumTime := sumTime s2 + duration\<rparr>;
          s4 = (case minTime s3 of
                  None \<Rightarrow> s3\<lparr>minTime := Some duration\<rparr>
                | Some m \<Rightarrow> if duration < m then s3\<lparr>minTime := Some duration\<rparr> else s3)
      in (case maxTime s4 of
            None \<Rightarrow> s4\<lparr>maxTime := Some duration\<rparr>
          | Some m \<Rightarrow> if m < duration then s4\<lparr>maxTime := Some duration\<rparr> else s4))"

text \<open>The termination test \<^verbatim>\<open>timeout || (iterate && resCount >= iterate)\<close>.\<close>

definition should_stop :: "bench_options \<Rightarrow> bench_state \<Rightarrow> bool" where
  "should_stop opts s =
     (timeout s \<or>
      (case iterate opts of
         None \<Rightarrow> False
       | Some n \<Rightarrow> truthy n \<and> js_ge_nat (resCount s) n))"

text \<open>
  \<^verbatim>\<open>handleResponse\<close>: record the outcome, then either print the result and call
  \<^verbatim>\<open>done()\<close>, or continue with the next request. \<open>elapsed\<close> is
  \<^verbatim>\<open>process.hrtime(startTotalTime)\<close>, read only when the run stops.
\<close>

definition handleResponse ::
  "bench_options \<Rightarrow> bench_state \<Rightarrow> hrtime \<Rightarrow> hrtime \<Rightarrow> bool \<Rightarrow> bench_state" where
  "handleResponse opts s diff elapsed err =
     (let s' = record_outcome s diff err
      in if should_stop opts s'
         then s'\<lparr>printed := Some (printResult s' (hr_ms elapsed)), phase := Finished\<rparr>
         else if fast_cycle (count s') then doRequest s'
         else s'\<lparr>phase := Yielded\<rparr>)"


section \<open>The run as a sequence of callbacks\<close>

text \<open>
  \<^verbatim>\<open>broker.call\<close> is the broker's, not this repository's. Its promise is either resolved,
  and the \<^verbatim>\<open>then\<close> callback calls \<^verbatim>\<open>handleResponse(startTime)\<close> (\<^verbatim>\<open>err\<close> is
  \<^verbatim>\<open>undefined\<close>, which is falsy), or rejected with a reason, and the \<^verbatim>\<open>catch\<close> callback
  calls \<^verbatim>\<open>handleResponse(startTime, err)\<close> with that reason. A promise can be rejected
  with any value: \<^verbatim>\<open>handleResponse\<close> tests \<^verbatim>\<open>if (err)\<close>, so what matters of the reason is
  whether it is truthy. Every object is truthy, an error object in particular;
  \<^verbatim>\<open>undefined\<close>, \<^verbatim>\<open>null\<close>, \<^verbatim>\<open>false\<close>, \<^verbatim>\<open>0\<close>, \<^verbatim>\<open>NaN\<close> and the empty string are falsy.
\<close>

datatype js_value =
  JUndefined | JNull | JBool bool | JNumber jsnum | JString string | JObject

fun truthy_value :: "js_value \<Rightarrow> bool" where
  "truthy_value JUndefined = False"
| "truthy_value JNull = False"
| "truthy_value (JBool b) = b"
| "truthy_value (JNumber n) = truthy n"
| "truthy_value (JString str) = (str \<noteq> [])"
| "truthy_value JObject = True"

datatype call_result = Resolved | Rejected js_value

definition on_settled ::
  "bench_options \<Rightarrow> bench_state \<Rightarrow> hrtime \<Rightarrow> hrtime \<Rightarrow> call_result \<Rightarrow> bench_state" where
  "on_settled opts s diff elapsed r =
     (case r of
        Resolved \<Rightarrow> handleResponse opts s diff elapsed False
      | Rejected reason \<Rightarrow> handleResponse opts s diff elapsed (truthy_value reason))"

text \<open>The truthiness of the \<^verbatim>\<open>err\<close> that \<^verbatim>\<open>handleResponse\<close> receives for a settled call.\<close>

fun err_flag :: "call_result \<Rightarrow> bool" where
  "err_flag Resolved = False"
| "err_flag (Rejected reason) = truthy_value reason"

text \<open>
  The callbacks the event loop can run: the one-shot timer (\<^verbatim>\<open>timeout = true\<close>), the
  settlement of the call in flight, with the two clock readings taken in its handler, and
  the \<^verbatim>\<open>setImmediate\<close> callback of a slow cycle. A settlement can only arrive while a call
  is in flight, and the immediate only after it was queued.
\<close>

datatype event = TimerFired | Completed hrtime hrtime call_result | Immediate

fun step :: "bench_options \<Rightarrow> bench_state \<Rightarrow> event \<Rightarrow> bench_state" where
  "step opts s TimerFired = s\<lparr>timeout := True\<rparr>"
| "step opts s (Completed diff elapsed r) =
     (if phase s = Calling then on_settled opts s diff elapsed r else s)"
| "step opts s Immediate = (if phase s = Yielded then doRequest s else s)"

text \<open>The body of the action: fresh variables, the timer armed, the first request.\<close>

definition bench_init :: "bench_options \<Rightarrow> bench_state" where
  "bench_init opts =
     \<lparr> count = 0, resCount = 0, errorCount = 0, sumTime = 0,
       minTime = None, maxTime = None, timeout = False,
       timer_ms = timer_delay opts, phase = Setup, printed = None \<rparr>"

definition bench_start :: "bench_options \<Rightarrow> bench_state" where
  "bench_start opts = doRequest (bench_init opts)"

definition bench :: "bench_options \<Rightarrow> event list \<Rightarrow> bench_state" where
  "bench opts evs = foldl (step opts) (bench_start opts) evs"


section \<open>Predicates and scenarios used by the theorems\<close>

text \<open>The callback of a settled call, as opposed to the timer and the immediate.\<close>

fun is_completion :: "event \<Rightarrow> bool" where
  "is_completion (Completed diff elapsed r) = True"
| "is_completion _ = False"



text \<open>Every request issued has been recorded once, but the one in flight.\<close>

definition issued_ok :: "bench_state \<Rightarrow> bool" where
  "issued_ok s =
     (phase s \<noteq> Setup \<and> count s = resCount s + (if phase s = Calling then 1 else 0))"

text \<open>
  A result has been printed exactly when the run has finished, and then at least one
  completion was recorded and the average is a proper quotient.
\<close>

fun report_matches :: "report option \<Rightarrow> bench_state \<Rightarrow> bool" where
  "report_matches None s = (phase s \<noteq> Finished)"
| "report_matches (Some r) s =
     (phase s = Finished \<and> 0 < resCount s \<and> rep_requests r = resCount s
      \<and> rep_avg r = Fin (sumTime s / of_nat (resCount s)))"

definition report_ok :: "bench_state \<Rightarrow> bool" where
  "report_ok s = (report_matches (printed s) s \<and> (resCount s = 0 \<longrightarrow> phase s = Calling))"

text \<open>
  The outcomes a run records: the latency reading and the result of every settlement
  that reaches \<^verbatim>\<open>handleResponse\<close>, in order. The timer, the immediates and the readings
  of the total elapsed time are not part of them.
\<close>

type_synonym outcome = "hrtime \<times> call_result"

fun handled :: "bench_state \<Rightarrow> event \<Rightarrow> outcome list" where
  "handled s (Completed diff elapsed r) = (if phase s = Calling then [(diff, r)] else [])"
| "handled s _ = []"

fun recorded :: "bench_options \<Rightarrow> bench_state \<Rightarrow> event list \<Rightarrow> outcome list" where
  "recorded opts s [] = []"
| "recorded opts s (ev # evs) = handled s ev @ recorded opts (step opts s ev) evs"

definition outcomes :: "bench_options \<Rightarrow> event list \<Rightarrow> outcome list" where
  "outcomes opts evs = recorded opts (bench_start opts) evs"

fun record_all :: "bench_state \<Rightarrow> outcome list \<Rightarrow> bench_state" where
  "record_all s [] = s"
| "record_all s ((diff, r) # os) = record_all (record_outcome s diff (err_flag r)) os"

text \<open>The statistics variables, and the fields of the printed result that show them.\<close>

definition stats5 :: "bench_state \<Rightarrow> nat \<times> nat \<times> rat \<times> rat option \<times> rat option" where
  "stats5 s = (resCount s, errorCount s, sumTime s, minTime s, maxTime s)"

definition report_stats :: "report \<Rightarrow> nat \<times> nat \<times> rat option \<times> rat option \<times> jsnum" where
  "report_stats r = (rep_requests r, rep_errors r, rep_min r, rep_max r, rep_avg r)"

definition stats_report :: "bench_state \<Rightarrow> nat \<times> nat \<times> rat option \<times> rat option \<times> jsnum" where
  "stats_report s =
     (resCount s, errorCount s, minTime s, maxTime s, js_div (sumTime s) (of_nat (resCount s)))"

definition report_current :: "bench_state \<Rightarrow> bool" where
  "report_current s =
     (phase s = Finished \<longrightarrow> map_option report_stats (printed s) = Some (stats_report s))"

text \<open>Two configurations: no bound at all, and \<^verbatim>\<open>--num 5\<close>.\<close>

definition no_bounds :: bench_options where
  "no_bounds = \<lparr>opt_num = None, opt_time = None\<rparr>"

definition max5 :: bench_options where
  "max5 = \<lparr>opt_num = Some (Fin 5), opt_time = None\<rparr>"

text \<open>
  Five calls that take 10, 20, 10, 10 and 30 ms, the second and the fifth rejected with
  an error object; the readings of the total elapsed time are parameters.
\<close>

definition scenario :: "hrtime \<Rightarrow> hrtime \<Rightarrow> hrtime \<Rightarrow> hrtime \<Rightarrow> hrtime \<Rightarrow> event list" where
  "scenario e1 e2 e3 e4 e5 =
     [Completed (0, 10000000) e1 Resolved,
      Completed (0, 20000000) e2 (Rejected JObject),
      Completed (0, 10000000) e3 Resolved,
      Completed (0, 10000000) e4 Resolved,
      Completed (0, 30000000) e5 (Rejected JObject)]"

text \<open>Two replays of these outcomes: in the second the timer fires before the last
  completion, and the clock readings differ.\<close>

definition replay_a :: "event list" where
  "replay_a = scenario (0, 11000000) (0, 32000000) (0, 43000000) (0, 54000000) (0, 85000000)"

definition replay_b :: "event list" where
  "replay_b =
     [Completed (0, 10000000) (0, 12000000) Resolved,
      Completed (0, 20000000) (0, 35000000) (Rejected JObject),
      Completed (0, 10000000) (0, 47000000) Resolved,
      Completed (0, 10000000) (0, 59000000) Resolved,
      TimerFired,
      Completed (0, 30000000) (60, 91000000) (Rejected JObject)]"


section \<open>The statistics in double arithmetic\<close>

text \<open>
  \<open>dbl\<close> rounds a rational to the nearest IEEE-754 double, ties to the even
  significand: \<open>normalise\<close> scales the magnitude into \<open>[2^52, 2^53)\<close> (or stops at the
  exponent \<open>-1074\<close> of the subnormal numbers), the scaled value is rounded to an integer
  and scaled back. The first argument of \<open>normalise\<close> bounds the number of scaling steps;
  2200 is more than the range of exponents of a double needs. Overflow to an infinity is
  not modelled: the clock readings are taken to be below \<open>2^53\<close>, where integers are exact,
  and sums of latencies stay far below \<open>2^1024\<close>.
\<close>

definition round_half_even :: "rat \<Rightarrow> int" where
  "round_half_even x =
     (let f = \<lfloor>x\<rfloor>; r = x - of_int f
      in if r < 1 / 2 then f else if 1 / 2 < r then f + 1 else if even f then f else f + 1)"

fun normalise :: "nat \<Rightarrow> rat \<Rightarrow> int \<Rightarrow> rat \<times> int" where
  "normalise 0 m e = (m, e)"
| "normalise (Suc k) m e =
     (if m < 4503599627370496 \<and> - 1074 < e then normalise k (2 * m) (e - 1)
      else if 9007199254740992 \<le> m then normalise k (m / 2) (e + 1)
      else (m, e))"

definition pow2 :: "int \<Rightarrow> rat" where
  "pow2 e = (if 0 \<le> e then 2 ^ nat e else 1 / 2 ^ nat (- e))"

definition dbl :: "rat \<Rightarrow> rat" where
  "dbl x =
     (if x = 0 then 0
      else (case normalise 2200 \<bar>x\<bar> 0 of
              (m, e) \<Rightarrow> sgn x * of_int (round_half_even m) * pow2 e))"

text \<open>\<^verbatim>\<open>(diff[0] + diff[1] / 1e9) * 1000\<close> with each operation rounded.\<close>

fun hr_ms_dbl :: "hrtime \<Rightarrow> rat" where
  "hr_ms_dbl (secs, nanos) = dbl (dbl (of_nat secs + dbl (of_nat nanos / 1000000000)) * 1000)"

text \<open>
  The statistics part of \<^verbatim>\<open>handleResponse\<close>, as \<open>record_outcome\<close> but with the latency
  and \<^verbatim>\<open>sumTime += duration\<close> rounded; comparisons of doubles are exact.
\<close>

definition record_outcome_dbl :: "bench_state \<Rightarrow> hrtime \<Rightarrow> bool \<Rightarrow> bench_state" where
  "record_outcome_dbl s diff err =
     (let s1 = s\<lparr>resCount := resCount s + 1\<rparr>;
          s2 = (if err then s1\<lparr>errorCount := errorCount s1 + 1\<rparr> else s1);
          duration = hr_ms_dbl diff;
          s3 = s2\<lparr>sumTime := dbl (sumTime s2 + duration)\<rparr>;
          s4 = (case minTime s3 of
                  None \<Rightarrow> s3\<lparr>minTime := Some duration\<rparr>
                | Some m \<Rightarrow> if duration < m then s3\<lparr>minTime := Some duration\<rparr> else s3)
      in (case maxTime s4 of
            None \<Rightarrow> s4\<lparr>maxTime := Some duration\<rparr>
          | Some m \<Rightarrow> if m < duration then s4\<lparr>maxTime := Some duration\<rparr> else s4))"










section \<open>Basic facts\<close>

lemma record_outcome_frame [simp]:
  "count (record_outcome s diff err) = count s"
  "timeout (record_outcome s diff err) = timeout s"
  "timer_ms (record_outcome s diff err) = timer_ms s"
  "phase (record_outcome s diff err) = phase s"
  "printed (record_outcome s diff err) = printed s"
  by (simp_all add: record_outcome_def Let_def split: option.splits)

lemma record_outcome_resCount [simp]:
  "resCount (record_outcome s diff err) = resCount s + 1"
  by (simp add: record_outcome_def Let_def split: option.splits)

lemma record_outcome_errorCount [simp]:
  "errorCount (record_outcome s diff err) = (if err then errorCount s + 1 else errorCount s)"
  by (simp add: record_outcome_def Let_def split: option.splits)

lemma record_outcome_sumTime [simp]:
  "sumTime (record_outcome s diff err) = sumTime s + hr_ms diff"
  by (simp add: record_outcome_def Let_def split: option.splits)

lemma record_outcome_minTime [simp]:
  "minTime (record_outcome s diff err) =
     Some (case minTime s of None \<Rightarrow> hr_ms diff | Some m \<Rightarrow> min m (hr_ms diff))"
  by (simp add: record_outcome_def Let_def min_def split: option.splits)

lemma record_outcome_maxTime [simp]:
  "maxTime (record_outcome s diff err) =
     Some (case maxTime s of None \<Rightarrow> hr_ms diff | Some m \<Rightarrow> max m (hr_ms diff))"
  by (simp add: record_outcome_def Let_def max_def split: option.splits)

lemma should_stop_record:
  "should_stop opts (record_outcome s diff err) =
     (timeout s \<or> (case iterate opts of None \<Rightarrow> False
                    | Some n \<Rightarrow> truthy n \<and> js_ge_nat (resCount s + 1) n))"
  by (simp add: should_stop_def split: option.splits)

lemma should_stop_err:
  "should_stop opts (record_outcome s diff e1) = should_stop opts (record_outcome s diff e2)"
  by (simp add: should_stop_record)

lemma handleResponse_phase:
  "phase (handleResponse opts s diff elapsed err) =
     (if should_stop opts (record_outcome s diff err) then Finished
      else if fast_cycle (count s) then Calling else Yielded)"
  by (simp add: handleResponse_def Let_def doRequest_def)

lemma step_phase_Finished:
  "phase s \<noteq> Finished \<Longrightarrow>
   (phase (step opts s ev) = Finished) =
     (is_completion ev \<and> phase s = Calling \<and>
      (timeout s \<or> (case iterate opts of None \<Rightarrow> False
                     | Some n \<Rightarrow> truthy n \<and> js_ge_nat (resCount s + 1) n)))"
  by (cases ev; cases "phase s")
     (auto simp: on_settled_def handleResponse_phase should_stop_record doRequest_def
           split: call_result.splits)

lemma bench_snoc: "bench opts (evs @ [ev]) = step opts (bench opts evs) ev"
  by (simp add: bench_def)

lemma bench_Nil: "bench opts [] = bench_start opts"
  by (simp add: bench_def)

lemma step_timer_ms [simp]: "timer_ms (step opts s ev) = timer_ms s"
  by (cases ev) (simp_all add: on_settled_def handleResponse_def Let_def doRequest_def
                   split: call_result.splits)

lemma bench_timer_ms: "timer_ms (bench opts evs) = timer_delay opts"
  by (induction evs rule: rev_induct)
     (simp_all add: bench_snoc bench_Nil bench_start_def bench_init_def doRequest_def)

lemma step_timeout:
  "timeout (step opts s ev) = (timeout s \<or> ev = TimerFired)"
  by (cases ev) (simp_all add: on_settled_def handleResponse_def Let_def doRequest_def
                   split: call_result.splits)

lemma bench_timeout: "timeout (bench opts evs) = (TimerFired \<in> set evs)"
  by (induction evs rule: rev_induct)
     (auto simp: bench_snoc bench_Nil bench_start_def bench_init_def doRequest_def step_timeout)

lemma bench_start_phase: "phase (bench_start opts) = Calling"
  by (simp add: bench_start_def doRequest_def)

lemma fast_cycle_iff: "fast_cycle c = (\<not> 10 dvd c)"
  by (simp add: fast_cycle_def cycle_expr_def dvd_eq_mod_eq_0)

text \<open>Without a request bound a run can only finish after the timer has fired.\<close>

lemma finished_needs_stop:
  assumes "iterate opts = None" "phase (bench opts evs) = Finished"
  shows "TimerFired \<in> set evs"
  using assms(2)
proof (induction evs rule: rev_induct)
  case Nil
  then show ?case by (simp add: bench_Nil bench_start_phase)
next
  case (snoc ev evs)
  show ?case
  proof (cases "phase (bench opts evs) = Finished")
    case True
    with snoc.IH show ?thesis by simp
  next
    case False
    from snoc.prems have "phase (step opts (bench opts evs) ev) = Finished"
      by (simp add: bench_snoc)
    with False have "timeout (bench opts evs)"
      by (simp add: step_phase_Finished assms(1))
    then show ?thesis by (simp add: bench_timeout)
  qed
qed

lemma issued_ok_step: "issued_ok s \<Longrightarrow> issued_ok (step opts s ev)"
  by (cases ev)
     (auto simp: issued_ok_def on_settled_def handleResponse_def Let_def doRequest_def
        split: call_result.splits if_splits)

lemma issued_ok_bench: "issued_ok (bench opts evs)"
proof (induction evs rule: rev_induct)
  case Nil
  show ?case
    by (simp add: bench_Nil bench_start_def bench_init_def doRequest_def issued_ok_def)
next
  case (snoc ev evs)
  then show ?case by (simp add: bench_snoc issued_ok_step)
qed


section \<open>The statistics update\<close>

text \<open>
  C2. Recording an outcome adds one to the number of completions, adds one to the number
  of errors exactly when the call failed, adds the latency to the sum whether the call
  failed or not, and sets the minimum (maximum) to the latency when it was unset and to
  the smaller (larger) of the old value and the latency otherwise.
\<close>

theorem record_outcome_update:
  "resCount (record_outcome s diff err) = resCount s + 1
   \<and> errorCount (record_outcome s diff err) = (if err then errorCount s + 1 else errorCount s)
   \<and> sumTime (record_outcome s diff err) = sumTime s + hr_ms diff
   \<and> minTime (record_outcome s diff err) =
       Some (case minTime s of None \<Rightarrow> hr_ms diff | Some m \<Rightarrow> min m (hr_ms diff))
   \<and> maxTime (record_outcome s diff err) =
       Some (case maxTime s of None \<Rightarrow> hr_ms diff | Some m \<Rightarrow> max m (hr_ms diff))"
  by (simp add: record_outcome_def Let_def min_def max_def split: option.splits)


section \<open>The termination test\<close>

text \<open>
  C1. The action issues the first request without any test: the run starts with one
  request in flight, no completion and nothing printed. A run that has not stopped stops
  in a step exactly when the step is the handling of a completion, and, the completion
  being recorded first (the completion count has grown by one), \<^verbatim>\<open>timeout\<close> is set or
  the request bound is set (\<^verbatim>\<open>iterate\<close> is truthy) and the completion count has reached
  it. With neither option given the timer is armed with 5000 ms and a run that has stopped
  has seen the timer fire.
\<close>

theorem termination_check:
  "phase (bench_start opts) = Calling \<and> count (bench_start opts) = 1
   \<and> resCount (bench_start opts) = 0 \<and> printed (bench_start opts) = None
   \<and> (phase s \<noteq> Finished \<longrightarrow>
        (phase (step opts s ev) = Finished) =
          (is_completion ev \<and> phase s = Calling \<and>
           resCount (step opts s ev) = resCount s + 1 \<and>
           (timeout s \<or> (case iterate opts of None \<Rightarrow> False
                          | Some n \<Rightarrow> truthy n \<and> js_ge_nat (resCount (step opts s ev)) n))))
   \<and> (opt_num opts = None \<and> opt_time opts = None \<longrightarrow>
        timer_ms (bench opts evs) = Fin 5000 \<and>
        (phase (bench opts evs) = Finished \<longrightarrow> TimerFired \<in> set evs))"
proof -
  have start: "phase (bench_start opts) = Calling \<and> count (bench_start opts) = 1
      \<and> resCount (bench_start opts) = 0 \<and> printed (bench_start opts) = None"
    by (simp add: bench_start_def bench_init_def doRequest_def)
  have check: "(phase (step opts s ev) = Finished) =
          (is_completion ev \<and> phase s = Calling \<and>
           resCount (step opts s ev) = resCount s + 1 \<and>
           (timeout s \<or> (case iterate opts of None \<Rightarrow> False
                          | Some n \<Rightarrow> truthy n \<and> js_ge_nat (resCount (step opts s ev)) n)))"
    if live: "phase s \<noteq> Finished"
  proof (cases "is_completion ev \<and> phase s = Calling")
    case True
    then obtain diff elapsed r where ev: "ev = Completed diff elapsed r"
      by (cases ev) simp_all
    have rc: "resCount (step opts s ev) = resCount s + 1"
      using True
      by (cases r) (simp_all add: ev on_settled_def handleResponse_def Let_def doRequest_def)
    show ?thesis
      using step_phase_Finished [OF live, of opts ev] True
      by (simp add: rc del: step.simps cong: option.case_cong)
  next
    case False
    then show ?thesis
      using step_phase_Finished [OF live, of opts ev] by auto
  qed
  have dflt: "timer_ms (bench opts evs) = Fin 5000 \<and>
        (phase (bench opts evs) = Finished \<longrightarrow> TimerFired \<in> set evs)"
    if none: "opt_num opts = None \<and> opt_time opts = None"
  proof -
    have "timer_delay opts = Fin 5000"
      using none by (simp add: timer_delay_def time_limit_def iterate_def)
    moreover have "iterate opts = None"
      using none by (simp add: iterate_def)
    ultimately show ?thesis
      using finished_needs_stop [of opts evs] by (simp add: bench_timer_ms)
  qed
  from start check dflt show ?thesis by blast
qed

theorem termination_check_witness:
  "phase (bench no_bounds [TimerFired]) \<noteq> Finished
   \<and> phase (step no_bounds (bench no_bounds [TimerFired])
              (Completed (0, 10000000) (5, 2000000) Resolved)) = Finished
   \<and> opt_num no_bounds = None \<and> opt_time no_bounds = None
   \<and> phase (bench no_bounds [TimerFired, Completed (0, 10000000) (5, 2000000) Resolved]) =
       Finished
   \<and> TimerFired \<in> set [TimerFired, Completed (0, 10000000) (5, 2000000) Resolved]
   \<and> timer_ms (bench no_bounds [TimerFired, Completed (0, 10000000) (5, 2000000) Resolved]) =
       Fin 5000"
  using termination_check [of no_bounds "bench no_bounds [TimerFired]"
      "Completed (0, 10000000) (5, 2000000) Resolved"
      "[TimerFired, Completed (0, 10000000) (5, 2000000) Resolved]"]
  by (simp add: no_bounds_def bench_def bench_start_def bench_init_def doRequest_def
        iterate_def on_settled_def handleResponse_def record_outcome_def should_stop_def
        Let_def timer_delay_def time_limit_def)


section \<open>Fast and slow cycles\<close>

text \<open>
  C3, as amended. The test \<^verbatim>\<open>count % 10 * 1000\<close> is \<^verbatim>\<open>(count % 10) * 1000\<close>, which is
  zero exactly when the request counter is a multiple of 10: the next request is deferred
  with \<^verbatim>\<open>setImmediate\<close> if and only if the counter is a multiple of 10, that is on every
  10th iteration, and issued at once otherwise.
\<close>

theorem deferred_every_tenth:
  "(\<not> fast_cycle c) = (10 dvd c)
   \<and> (\<not> should_stop opts (record_outcome s diff err) \<longrightarrow>
        (phase (handleResponse opts s diff elapsed err) = Yielded) = (10 dvd count s)
        \<and> (phase (handleResponse opts s diff elapsed err) = Calling) = (\<not> 10 dvd count s))"
  by (simp add: handleResponse_phase fast_cycle_iff)

theorem deferred_every_tenth_witness:
  "\<not> should_stop no_bounds (record_outcome ((bench_start no_bounds)\<lparr>count := 10\<rparr>)
        (0, 10000000) False)
   \<and> phase (handleResponse no_bounds ((bench_start no_bounds)\<lparr>count := 10\<rparr>)
        (0, 10000000) (0, 11000000) False) = Yielded
   \<and> (10 :: nat) dvd 10"
  using deferred_every_tenth [of 10 no_bounds "(bench_start no_bounds)\<lparr>count := 10\<rparr>"
      "(0, 10000000)" False "(0, 11000000)"]
  by (simp add: no_bounds_def should_stop_def iterate_def bench_start_def bench_init_def
        doRequest_def)

text \<open>
  The claim as stated, that the request is deferred if and only if the counter is a
  multiple of 10000, fails at the counter value 10: the request is deferred there.
\<close>

theorem deferred_every_10000_counterexample:
  "\<not> ((\<not> fast_cycle 10) = ((10000 :: nat) dvd 10))"
  by (simp add: fast_cycle_def cycle_expr_def)


section \<open>The scenario of five calls\<close>

text \<open>
  C5. With \<^verbatim>\<open>--num 5\<close> and the outcomes success (10 ms), failure (20 ms), success
  (10 ms), success (10 ms), failure (30 ms), the run stops at the fifth completion, not
  before, and prints 5 requests, 2 errors, a minimum of 10, a maximum of 30 and an
  average of 16, whatever the readings of the total elapsed time.
\<close>

theorem scenario_report:
  "phase (bench max5 (scenario e1 e2 e3 e4 e5)) = Finished
   \<and> map_option rep_requests (printed (bench max5 (scenario e1 e2 e3 e4 e5))) = Some 5
   \<and> map_option rep_errors (printed (bench max5 (scenario e1 e2 e3 e4 e5))) = Some 2
   \<and> map_option rep_min (printed (bench max5 (scenario e1 e2 e3 e4 e5))) = Some (Some 10)
   \<and> map_option rep_max (printed (bench max5 (scenario e1 e2 e3 e4 e5))) = Some (Some 30)
   \<and> map_option rep_avg (printed (bench max5 (scenario e1 e2 e3 e4 e5))) = Some (Fin 16)
   \<and> phase (bench max5 (butlast (scenario e1 e2 e3 e4 e5))) = Calling"
  by (simp add: max5_def scenario_def bench_def bench_start_def bench_init_def doRequest_def
        on_settled_def handleResponse_def should_stop_def iterate_def fast_cycle_def
        cycle_expr_def printResult_def js_div_def Let_def)


section \<open>Failed calls\<close>

text \<open>
  C6, as amended. When the call in flight is rejected with a truthy reason, as every
  error object is, the outcome is recorded as a failure: the error count grows by one.
  Whatever the reason of a rejection, the completion count grows by one and the latency
  is added to the sum, and the run goes on exactly as after a success with the same
  latency: it is in the same phase and has issued the same number of requests, and it
  stops only when the termination test holds, which does not look at the error. No call
  is repeated: in every run each request issued is recorded once, so the requests are the
  completions plus the one in flight.
\<close>

theorem rejection_is_recorded_and_run_continues:
  "phase s = Calling \<Longrightarrow>
   (truthy_value reason \<longrightarrow>
      errorCount (step opts s (Completed diff elapsed (Rejected reason))) = errorCount s + 1)
   \<and> errorCount (step opts s (Completed diff elapsed Resolved)) = errorCount s
   \<and> resCount (step opts s (Completed diff elapsed (Rejected reason))) = resCount s + 1
   \<and> sumTime (step opts s (Completed diff elapsed (Rejected reason))) = sumTime s + hr_ms diff
   \<and> phase (step opts s (Completed diff elapsed (Rejected reason))) =
       phase (step opts s (Completed diff elapsed Resolved))
   \<and> count (step opts s (Completed diff elapsed (Rejected reason))) =
       count (step opts s (Completed diff elapsed Resolved))
   \<and> (phase (step opts s (Completed diff elapsed (Rejected reason))) = Finished) =
       (timeout s \<or> (case iterate opts of None \<Rightarrow> False
                      | Some n \<Rightarrow> truthy n \<and> js_ge_nat (resCount s + 1) n))
   \<and> count (bench opts evs) =
       resCount (bench opts evs) + (if phase (bench opts evs) = Calling then 1 else 0)"
proof -
  assume c: "phase s = Calling"
  have a: "truthy_value reason \<longrightarrow>
      errorCount (step opts s (Completed diff elapsed (Rejected reason))) = errorCount s + 1"
    "errorCount (step opts s (Completed diff elapsed Resolved)) = errorCount s"
    "resCount (step opts s (Completed diff elapsed (Rejected reason))) = resCount s + 1"
    "sumTime (step opts s (Completed diff elapsed (Rejected reason))) = sumTime s + hr_ms diff"
    using c by (simp_all add: on_settled_def handleResponse_def Let_def doRequest_def)
  have b: "phase (step opts s (Completed diff elapsed (Rejected reason))) =
       phase (step opts s (Completed diff elapsed Resolved))"
    "count (step opts s (Completed diff elapsed (Rejected reason))) =
       count (step opts s (Completed diff elapsed Resolved))"
    using c should_stop_err [of opts s diff "truthy_value reason" False]
    by (simp_all add: on_settled_def handleResponse_def Let_def doRequest_def)
  have d: "(phase (step opts s (Completed diff elapsed (Rejected reason))) = Finished) =
       (timeout s \<or> (case iterate opts of None \<Rightarrow> False
                      | Some n \<Rightarrow> truthy n \<and> js_ge_nat (resCount s + 1) n))"
    using c step_phase_Finished [of s opts "Completed diff elapsed (Rejected reason)"]
    by (simp del: step.simps)
  have e: "count (bench opts evs) =
       resCount (bench opts evs) + (if phase (bench opts evs) = Calling then 1 else 0)"
    using issued_ok_bench [of opts evs] by (simp add: issued_ok_def)
  from a b d e show ?thesis by blast
qed

theorem rejection_is_recorded_and_run_continues_witness:
  "phase (bench_start max5) = Calling \<and> truthy_value JObject
   \<and> errorCount (step max5 (bench_start max5)
        (Completed (0, 20000000) (0, 21000000) (Rejected JObject))) = 1
   \<and> sumTime (step max5 (bench_start max5)
        (Completed (0, 20000000) (0, 21000000) (Rejected JObject))) = 20
   \<and> phase (step max5 (bench_start max5)
        (Completed (0, 20000000) (0, 21000000) (Rejected JObject))) = Calling
   \<and> count (step max5 (bench_start max5)
        (Completed (0, 20000000) (0, 21000000) (Rejected JObject))) = 2"
  using rejection_is_recorded_and_run_continues [of "bench_start max5" JObject max5
      "(0, 20000000)" "(0, 21000000)" "[]"]
  by (simp add: max5_def bench_start_def bench_init_def doRequest_def on_settled_def
        handleResponse_def should_stop_def iterate_def fast_cycle_def cycle_expr_def Let_def)

text \<open>
  The claim as stated, that every call that fails is recorded as a failure, fails for a
  call rejected with \<^verbatim>\<open>undefined\<close>: the \<^verbatim>\<open>catch\<close> callback passes the reason to
  \<^verbatim>\<open>handleResponse\<close>, \<^verbatim>\<open>if (err)\<close> does not hold, and the completion is counted without
  an error.
\<close>

theorem falsy_rejection_counterexample:
  "phase (bench_start max5) = Calling
   \<and> errorCount (bench_start max5) = 0
   \<and> resCount (step max5 (bench_start max5)
        (Completed (0, 20000000) (0, 21000000) (Rejected JUndefined))) = 1
   \<and> errorCount (step max5 (bench_start max5)
        (Completed (0, 20000000) (0, 21000000) (Rejected JUndefined))) = 0"
  by (simp add: max5_def bench_start_def bench_init_def doRequest_def on_settled_def
        handleResponse_def should_stop_def iterate_def fast_cycle_def cycle_expr_def Let_def)

section \<open>The timer\<close>

text \<open>
  C7. When neither \<^verbatim>\<open>--num\<close> nor \<^verbatim>\<open>--time\<close> is given, \<^verbatim>\<open>time\<close> becomes 5, the timer is
  armed with 5000 ms and stays so, and the termination test is the \<^verbatim>\<open>timeout\<close> flag
  alone: the timer governs the end of the run.
\<close>

theorem default_duration:
  "opt_num opts = None \<Longrightarrow> opt_time opts = None \<Longrightarrow>
   time_limit opts = Some (Fin 5)
   \<and> timer_ms (bench_start opts) = Fin 5000
   \<and> timer_ms (bench opts evs) = Fin 5000
   \<and> should_stop opts s = timeout s"
  using bench_timer_ms [of opts evs] bench_timer_ms [of opts "[]"]
  by (simp add: time_limit_def timer_delay_def iterate_def should_stop_def bench_Nil)

theorem default_duration_witness:
  "opt_num no_bounds = None \<and> opt_time no_bounds = None
   \<and> time_limit no_bounds = Some (Fin 5)
   \<and> timer_ms (bench_start no_bounds) = Fin 5000"
  using default_duration [of no_bounds "[]"]
  by (simp add: no_bounds_def)

text \<open>
  C10. When a request bound is given (\<^verbatim>\<open>iterate\<close> is truthy) and \<^verbatim>\<open>--time\<close> is not, the
  timer is armed with 60000 ms all the same. When it fires while a call is in flight,
  \<^verbatim>\<open>timeout\<close> is set and the run stops at the next completion, whatever the completion
  count.
\<close>

theorem count_bound_timer_60s:
  "truthy n \<Longrightarrow> opt_num opts = Some n \<Longrightarrow> opt_time opts = None \<Longrightarrow>
   timer_ms (bench_start opts) = Fin 60000
   \<and> timer_ms (bench opts evs) = Fin 60000
   \<and> (phase (bench opts evs) = Calling \<longrightarrow>
        timeout (bench opts (evs @ [TimerFired]))
        \<and> phase (bench opts (evs @ [TimerFired, Completed diff elapsed r])) = Finished)"
proof -
  assume n: "truthy n" "opt_num opts = Some n" "opt_time opts = None"
  then have d: "timer_delay opts = Fin 60000"
    by (simp add: timer_delay_def time_limit_def iterate_def)
  have fin: "phase (bench opts (evs @ [TimerFired, Completed diff elapsed r])) = Finished"
    if "phase (bench opts evs) = Calling"
  proof -
    have "bench opts (evs @ [TimerFired, Completed diff elapsed r]) =
          step opts (step opts (bench opts evs) TimerFired) (Completed diff elapsed r)"
      by (simp add: bench_def)
    moreover have "phase (step opts (bench opts evs) TimerFired) = Calling"
      using that by simp
    moreover have "timeout (step opts (bench opts evs) TimerFired)"
      by simp
    ultimately show ?thesis
      using step_phase_Finished [of "step opts (bench opts evs) TimerFired" opts
          "Completed diff elapsed r"]
      by (simp del: step.simps)
  qed
  show ?thesis
    using d fin bench_timer_ms [of opts evs] bench_timer_ms [of opts "[]"]
    by (simp add: bench_Nil bench_timeout)
qed

theorem count_bound_timer_60s_witness:
  "truthy (Fin 5) \<and> opt_num max5 = Some (Fin 5) \<and> opt_time max5 = None
   \<and> timer_ms (bench_start max5) = Fin 60000
   \<and> phase (bench max5 []) = Calling
   \<and> resCount (bench max5 [TimerFired, Completed (0, 10000000) (60, 2000000) Resolved]) = 1
   \<and> phase (bench max5 [TimerFired, Completed (0, 10000000) (60, 2000000) Resolved]) =
       Finished"
  using count_bound_timer_60s [of "Fin 5" max5 "[]" "(0, 10000000)" "(60, 2000000)" Resolved]
  by (simp add: max5_def bench_def bench_start_def bench_init_def doRequest_def on_settled_def
        handleResponse_def record_outcome_def should_stop_def Let_def
        timer_delay_def time_limit_def iterate_def)


section \<open>Replaying the same outcomes\<close>

lemma stats5_record_outcome:
  "stats5 s = stats5 t \<Longrightarrow> stats5 (record_outcome s diff err) = stats5 (record_outcome t diff err)"
  by (simp add: stats5_def cong: option.case_cong)

lemma stats5_record_all:
  "stats5 s = stats5 t \<Longrightarrow> stats5 (record_all s os) = stats5 (record_all t os)"
proof (induction os arbitrary: s t)
  case Nil
  then show ?case by simp
next
  case (Cons a os)
  obtain diff r where a: "a = (diff, r)" by (cases a)
  from Cons.prems have "stats5 (record_outcome s diff (err_flag r)) =
      stats5 (record_outcome t diff (err_flag r))"
    by (rule stats5_record_outcome)
  then show ?case unfolding a record_all.simps by (rule Cons.IH)
qed

lemma stats5_handleResponse:
  "stats5 (handleResponse opts s diff elapsed err) = stats5 (record_outcome s diff err)"
  by (simp add: handleResponse_def Let_def doRequest_def stats5_def)

lemma stats5_step:
  "stats5 (step opts s ev) = stats5 (record_all s (handled s ev))"
proof (cases ev)
  case (Completed diff elapsed r)
  then show ?thesis
    by (cases r) (simp_all add: on_settled_def stats5_handleResponse)
qed (simp_all add: stats5_def doRequest_def)

lemma record_all_append: "record_all s (os @ ps) = record_all (record_all s os) ps"
  by (induction os arbitrary: s) auto

text \<open>The statistics of a run are those of its recorded outcomes, folded in order.\<close>

lemma stats5_foldl:
  "stats5 (foldl (step opts) s evs) = stats5 (record_all s (recorded opts s evs))"
proof (induction evs arbitrary: s)
  case Nil
  show ?case by simp
next
  case (Cons ev evs)
  have "stats5 (foldl (step opts) (step opts s ev) evs) =
        stats5 (record_all (step opts s ev) (recorded opts (step opts s ev) evs))"
    by (rule Cons.IH)
  also have "\<dots> = stats5 (record_all (record_all s (handled s ev))
                       (recorded opts (step opts s ev) evs))"
    by (rule stats5_record_all) (rule stats5_step)
  finally show ?case by (simp add: record_all_append)
qed

lemma stats5_bench:
  "stats5 (bench opts evs) = stats5 (record_all (bench_start opts) (outcomes opts evs))"
  by (simp add: bench_def outcomes_def stats5_foldl)

lemma report_current_handleResponse:
  "phase s = Calling \<Longrightarrow> report_current (handleResponse opts s diff elapsed err)"
  by (simp add: report_current_def handleResponse_def Let_def doRequest_def printResult_def
        report_stats_def stats_report_def)

lemma report_current_step:
  assumes "report_current s"
  shows "report_current (step opts s ev)"
proof (cases ev)
  case TimerFired
  with assms show ?thesis by (simp add: report_current_def stats_report_def)
next
  case (Completed diff elapsed r)
  with assms show ?thesis
    by (cases r) (simp_all add: on_settled_def report_current_handleResponse)
next
  case Immediate
  with assms show ?thesis by (simp add: report_current_def doRequest_def)
qed

lemma report_current_bench: "report_current (bench opts evs)"
proof (induction evs rule: rev_induct)
  case Nil
  show ?case
    by (simp add: bench_Nil bench_start_def bench_init_def doRequest_def report_current_def)
next
  case (snoc ev evs)
  then show ?case by (simp add: bench_snoc report_current_step)
qed

lemma stats_report_stats5: "stats5 s = stats5 t \<Longrightarrow> stats_report s = stats_report t"
  by (simp add: stats5_def stats_report_def)

text \<open>
  C8. Two fresh runs under the same options that record the same sequence of outcomes
  (the same latency readings and the same results, in the same order) have the same
  statistics, and when both have stopped their printed results agree on the number of
  requests, the number of errors, the minimum, the maximum and the average. The runs may
  differ in when the timer fires, in their immediates and in the readings of the total
  elapsed time.
\<close>

theorem replay_same_report:
  "outcomes opts evs1 = outcomes opts evs2 \<Longrightarrow>
   stats5 (bench opts evs1) = stats5 (bench opts evs2)
   \<and> (phase (bench opts evs1) = Finished \<and> phase (bench opts evs2) = Finished \<longrightarrow>
        map_option report_stats (printed (bench opts evs1)) =
          map_option report_stats (printed (bench opts evs2)))"
proof -
  assume "outcomes opts evs1 = outcomes opts evs2"
  then have eq: "stats5 (bench opts evs1) = stats5 (bench opts evs2)"
    by (simp add: stats5_bench)
  then have "stats_report (bench opts evs1) = stats_report (bench opts evs2)"
    by (rule stats_report_stats5)
  with eq report_current_bench [of opts evs1] report_current_bench [of opts evs2]
  show ?thesis by (auto simp: report_current_def)
qed

theorem replay_same_report_witness:
  "outcomes max5 replay_a = outcomes max5 replay_b
   \<and> phase (bench max5 replay_a) = Finished \<and> phase (bench max5 replay_b) = Finished
   \<and> map_option report_stats (printed (bench max5 replay_a)) = Some (5, 2, Some 10, Some 30, Fin 16)
   \<and> map_option report_stats (printed (bench max5 replay_b)) = Some (5, 2, Some 10, Some 30, Fin 16)
   \<and> map_option rep_duration (printed (bench max5 replay_a)) = Some 85
   \<and> map_option rep_duration (printed (bench max5 replay_b)) = Some 60091"
  using replay_same_report [of max5 replay_a replay_b]
  by (simp add: replay_a_def replay_b_def outcomes_def max5_def scenario_def bench_def
        bench_start_def bench_init_def doRequest_def on_settled_def handleResponse_def
        should_stop_def iterate_def fast_cycle_def cycle_expr_def printResult_def js_div_def
        report_stats_def Let_def)


section \<open>The bounds on the statistics\<close>

lemma record_outcome_dbl_frame [simp]:
  "count (record_outcome_dbl s diff err) = count s"
  "timeout (record_outcome_dbl s diff err) = timeout s"
  "timer_ms (record_outcome_dbl s diff err) = timer_ms s"
  "phase (record_outcome_dbl s diff err) = phase s"
  "printed (record_outcome_dbl s diff err) = printed s"
  by (simp_all add: record_outcome_dbl_def Let_def split: option.splits)

lemma record_outcome_dbl_resCount [simp]:
  "resCount (record_outcome_dbl s diff err) = resCount s + 1"
  by (simp add: record_outcome_dbl_def Let_def split: option.splits)

lemma record_outcome_dbl_errorCount [simp]:
  "errorCount (record_outcome_dbl s diff err) = (if err then errorCount s + 1 else errorCount s)"
  by (simp add: record_outcome_dbl_def Let_def split: option.splits)

lemma record_outcome_dbl_sumTime [simp]:
  "sumTime (record_outcome_dbl s diff err) = dbl (sumTime s + hr_ms_dbl diff)"
  by (simp add: record_outcome_dbl_def Let_def split: option.splits)

lemma record_outcome_dbl_minTime [simp]:
  "minTime (record_outcome_dbl s diff err) =
     Some (case minTime s of None \<Rightarrow> hr_ms_dbl diff | Some m \<Rightarrow> min m (hr_ms_dbl diff))"
  by (simp add: record_outcome_dbl_def Let_def min_def split: option.splits)

lemma record_outcome_dbl_maxTime [simp]:
  "maxTime (record_outcome_dbl s diff err) =
     Some (case maxTime s of None \<Rightarrow> hr_ms_dbl diff | Some m \<Rightarrow> max m (hr_ms_dbl diff))"
  by (simp add: record_outcome_dbl_def Let_def max_def split: option.splits)



















section \<open>A run without a completion\<close>

lemma report_ok_handleResponse:
  assumes "report_ok s" "phase s = Calling"
  shows "report_ok (handleResponse opts s diff elapsed err)"
proof -
  from assms have none: "printed s = None"
    by (cases "printed s") (simp_all add: report_ok_def)
  show ?thesis
    using assms(2) none
    by (simp add: report_ok_def handleResponse_def Let_def doRequest_def printResult_def
          js_div_def)
qed

lemma report_ok_step:
  assumes "report_ok s" "phase s \<noteq> Setup"
  shows "report_ok (step opts s ev)"
proof (cases ev)
  case TimerFired
  with assms show ?thesis
    by (cases "printed s") (simp_all add: report_ok_def)
next
  case (Completed diff elapsed r)
  with assms show ?thesis
    by (cases r) (simp_all add: on_settled_def report_ok_handleResponse)
next
  case Immediate
  with assms show ?thesis
    by (cases "printed s") (auto simp: report_ok_def doRequest_def)
qed

lemma report_ok_bench: "report_ok (bench opts evs)"
proof (induction evs rule: rev_induct)
  case Nil
  show ?case
    by (simp add: bench_Nil bench_start_def bench_init_def doRequest_def report_ok_def)
next
  case (snoc ev evs)
  moreover have "phase (bench opts evs) \<noteq> Setup"
    using issued_ok_bench [of opts evs] by (simp add: issued_ok_def)
  ultimately show ?case by (simp add: bench_snoc report_ok_step)
qed

text \<open>
  C9, as amended. The result is printed only in the handler of a completion, after the
  completion was counted. So a run that has stopped has recorded at least one completion,
  and its printed result shows that count and, as the average, the sum of the latencies
  divided by it, a division by a number that is not zero. A run that has recorded no
  completion has not stopped and has printed nothing: it is still waiting for its first
  call.
\<close>

theorem report_only_after_completion:
  "(phase (bench opts evs) = Finished \<longrightarrow>
      0 < resCount (bench opts evs)
      \<and> map_option rep_requests (printed (bench opts evs)) = Some (resCount (bench opts evs))
      \<and> map_option rep_avg (printed (bench opts evs)) =
          Some (Fin (sumTime (bench opts evs) / of_nat (resCount (bench opts evs)))))
   \<and> (resCount (bench opts evs) = 0 \<longrightarrow>
        phase (bench opts evs) = Calling \<and> printed (bench opts evs) = None)"
  using report_ok_bench [of opts evs]
  by (cases "printed (bench opts evs)") (auto simp: report_ok_def)

theorem report_only_after_completion_witness:
  "phase (bench no_bounds [TimerFired, Completed (0, 10000000) (5, 2000000) Resolved]) = Finished
   \<and> resCount (bench no_bounds [TimerFired, Completed (0, 10000000) (5, 2000000) Resolved]) = 1
   \<and> map_option rep_avg
        (printed (bench no_bounds [TimerFired, Completed (0, 10000000) (5, 2000000) Resolved])) =
      Some (Fin 10)
   \<and> resCount (bench no_bounds [TimerFired]) = 0
   \<and> phase (bench no_bounds [TimerFired]) = Calling
   \<and> printed (bench no_bounds [TimerFired]) = None"
  using report_only_after_completion [of no_bounds
      "[TimerFired, Completed (0, 10000000) (5, 2000000) Resolved]"]
    report_only_after_completion [of no_bounds "[TimerFired]"]
  by (simp add: no_bounds_def bench_def bench_start_def bench_init_def doRequest_def
        on_settled_def handleResponse_def should_stop_def iterate_def Let_def)

text \<open>
  The claim as stated expects, for a run that ends without a completion, a result that
  marks the rate and the average as undefined. In the run with the default duration
  whose timer has fired and whose first call has not completed, no completion is
  recorded, the run has not stopped and nothing is printed; and \<^verbatim>\<open>printResult\<close> has no
  guard: in that state it would show the average \<^verbatim>\<open>0 / 0\<close>, that is \<^verbatim>\<open>NaN\<close>, and the rate
  0.
\<close>

theorem zero_count_report_counterexample:
  "timeout (bench no_bounds [TimerFired])
   \<and> resCount (bench no_bounds [TimerFired]) = 0
   \<and> phase (bench no_bounds [TimerFired]) = Calling
   \<and> printed (bench no_bounds [TimerFired]) = None
   \<and> rep_avg (printResult (bench no_bounds [TimerFired]) 5000) = NaN
   \<and> rep_rps (printResult (bench no_bounds [TimerFired]) 5000) = Fin 0"
  by (simp add: no_bounds_def bench_def bench_start_def bench_init_def doRequest_def
        printResult_def js_div_def)


end
